theory Spec2Isabelle
  imports Main "HOL-Library.Sublist"
begin


section \<open>Strings and JavaScript values\<close>

text \<open>
  Strings are byte strings (UTF-8). \<open>String.prototype.toLowerCase\<close> is modelled on
  the ASCII letters; the only comparisons the component makes are against the ASCII
  words \<open>json\<close> and \<open>html\<close>, and no non-ASCII code point lower-cases to one of
  their letters.
\<close>

definition to_lower_char :: "char \<Rightarrow> char" where
  "to_lower_char c =
     (let n = (of_char c :: nat) in if 65 \<le> n \<and> n \<le> 90 then char_of (n + 32) else c)"

definition toLowerCase :: "string \<Rightarrow> string" where
  "toLowerCase s = map to_lower_char s"

text \<open>\<open>String.prototype.includes\<close>: the needle occurs as a contiguous substring.\<close>

fun str_includes :: "string \<Rightarrow> string \<Rightarrow> bool" where
  "str_includes [] t = (t = [])"
| "str_includes (c # s) t = (prefix t (c # s) \<or> str_includes s t)"

text \<open>The separator written after an attachment name: space, U+00B7 (middle dot), space.\<close>

definition glyph :: string where
  "glyph = [CHR '' '', CHR 0xC2, CHR 0xB7, CHR '' '']"

fun join :: "string \<Rightarrow> string list \<Rightarrow> string" where
  "join sep [] = []"
| "join sep [x] = x"
| "join sep (x # y # ys) = x @ sep @ join sep (y # ys)"

text \<open>
  The values \<open>JSON.parse\<close> can return. Numbers are restricted to the integers;
  how a number prints is left to the runtime (\<open>number_to_string\<close> below).
\<close>

datatype json =
    JNull
  | JBool bool
  | JNum int
  | JStr string
  | JArr "json list"
  | JObj "(string \<times> json) list"

datatype error = SyntaxError | TypeError

text \<open>JavaScript truthiness, as tested by \<open>if (caption)\<close>.\<close>

fun truthy :: "json \<Rightarrow> bool" where
  "truthy JNull = False"
| "truthy (JBool b) = b"
| "truthy (JNum n) = (n \<noteq> 0)"
| "truthy (JStr s) = (s \<noteq> [])"
| "truthy (JArr xs) = True"
| "truthy (JObj kvs) = True"

text \<open>
  Reading the property \<open>caption\<close> off a parsed value, as the destructuring
  \<open>const { caption } = JSON.parse(attrs)\<close> does: \<open>null\<close> cannot be destructured
  (a TypeError); an object yields the field or \<open>undefined\<close>; every other value has
  no such property.
\<close>

fun destructure :: "string \<Rightarrow> json \<Rightarrow> error + json option" where
  "destructure k JNull = Inl TypeError"
| "destructure k (JObj kvs) = Inr (map_of kvs k)"
| "destructure k v = Inr None"

text \<open>String conversion inside a template literal \<open>`${caption}`\<close>.\<close>

fun to_string :: "(int \<Rightarrow> string) \<Rightarrow> json \<Rightarrow> string" where
  "to_string num JNull = ''null''"
| "to_string num (JBool b) = (if b then ''true'' else ''false'')"
| "to_string num (JNum n) = num n"
| "to_string num (JStr s) = s"
| "to_string num (JArr xs) =
     join '','' (map (\<lambda>x. case x of JNull \<Rightarrow> [] | _ \<Rightarrow> to_string num x) xs)"
| "to_string num (JObj kvs) = ''[object Object]''"

section \<open>The DOM of a parsed value\<close>

type_synonym attrs = "(string \<times> string) list"

datatype node =
    Element string attrs "node list"
  | Text string

text \<open>A node of a forest is named by the child indices that lead to it.\<close>

type_synonym path = "nat list"

fun node_at :: "node list \<Rightarrow> path \<Rightarrow> node option" where
  "node_at ns [] = None"
| "node_at ns [i] = (if i < length ns then Some (ns ! i) else None)"
| "node_at ns (i # p) =
     (if i < length ns
      then (case ns ! i of Element t a cs \<Rightarrow> node_at cs p | Text s \<Rightarrow> None)
      else None)"

fun update_at :: "path \<Rightarrow> (node \<Rightarrow> node) \<Rightarrow> node list \<Rightarrow> node list" where
  "update_at [] f ns = ns"
| "update_at [i] f ns = (if i < length ns then ns[i := f (ns ! i)] else ns)"
| "update_at (i # p) f ns =
     (if i < length ns
      then (case ns ! i of
              Element t a cs \<Rightarrow> ns[i := Element t a (update_at p f cs)]
            | Text s \<Rightarrow> ns)
      else ns)"

text \<open>The paths of all elements, in document order.\<close>

fun paths_of :: "node \<Rightarrow> path list"
  and paths_from :: "nat \<Rightarrow> node list \<Rightarrow> path list" where
  "paths_of (Text s) = []"
| "paths_of (Element t a cs) = [] # paths_from 0 cs"
| "paths_from i [] = []"
| "paths_from i (n # ns) = map ((#) i) (paths_of n) @ paths_from (Suc i) ns"

definition element_paths :: "node list \<Rightarrow> path list" where
  "element_paths d = paths_from 0 d"

definition querySelectorAll :: "(node list \<Rightarrow> path \<Rightarrow> bool) \<Rightarrow> node list \<Rightarrow> path list" where
  "querySelectorAll sel d = filter (sel d) (element_paths d)"

fun is_element :: "node \<Rightarrow> bool" where
  "is_element (Element t a cs) = True"
| "is_element (Text s) = False"

fun has_tag :: "string \<Rightarrow> node \<Rightarrow> bool" where
  "has_tag t (Element t' a cs) = (t' = t)"
| "has_tag t (Text s) = False"

fun getAttribute :: "node \<Rightarrow> string \<Rightarrow> string option" where
  "getAttribute (Element t a cs) k = map_of a k"
| "getAttribute (Text s) k = None"

fun child_nodes :: "node \<Rightarrow> node list" where
  "child_nodes (Element t a cs) = cs"
| "child_nodes (Text s) = []"

fun textContent :: "node \<Rightarrow> string" where
  "textContent (Text s) = s"
| "textContent (Element t a cs) = concat (map textContent cs)"

text \<open>\<open>el.querySelector(tag) == null\<close>: no descendant element has the tag.\<close>

fun has_descendant :: "string \<Rightarrow> node \<Rightarrow> bool" where
  "has_descendant t (Text s) = False"
| "has_descendant t (Element t' a cs) = (\<exists>c \<in> set cs. has_tag t c \<or> has_descendant t c)"

subsection \<open>Class lists\<close>

definition is_space :: "char \<Rightarrow> bool" where
  "is_space c = (c \<in> set [CHR '' '', CHR 0x09, CHR 0x0A, CHR 0x0C, CHR 0x0D])"

fun tokens :: "string \<Rightarrow> string \<Rightarrow> string list" where
  "tokens [] cur = (if cur = [] then [] else [cur])"
| "tokens (c # cs) cur =
     (if is_space c then (if cur = [] then tokens cs [] else cur # tokens cs [])
      else tokens cs (cur @ [c]))"

fun first_occurrences :: "string list \<Rightarrow> string list" where
  "first_occurrences [] = []"
| "first_occurrences (x # xs) = x # first_occurrences (filter (\<lambda>y. y \<noteq> x) xs)"

definition classList :: "node \<Rightarrow> string list" where
  "classList n =
     (case getAttribute n ''class'' of None \<Rightarrow> [] | Some v \<Rightarrow> first_occurrences (tokens v []))"

fun set_attr :: "string \<Rightarrow> string \<Rightarrow> attrs \<Rightarrow> attrs" where
  "set_attr k v [] = [(k, v)]"
| "set_attr k v ((k', v') # a) = (if k' = k then (k, v) # a else (k', v') # set_attr k v a)"

fun setAttribute :: "string \<Rightarrow> string \<Rightarrow> node \<Rightarrow> node" where
  "setAttribute k v (Element t a cs) = Element t (set_attr k v a) cs"
| "setAttribute k v (Text s) = Text s"

definition classList_add :: "string \<Rightarrow> node \<Rightarrow> node" where
  "classList_add c n =
     (let ts = classList n
      in setAttribute ''class'' (join '' '' (if c \<in> set ts then ts else ts @ [c])) n)"

text \<open>\<open>insertAdjacentHTML("beforeend", ...)\<close> and \<open>insertAdjacentText("beforeend", ...)\<close>
  both append after the last child.\<close>

fun append_children :: "node list \<Rightarrow> node \<Rightarrow> node" where
  "append_children new (Element t a cs) = Element t a (cs @ new)"
| "append_children new (Text s) = Text s"

section \<open>The browser and the runtime\<close>

text \<open>
  What the component takes from its environment and does not implement: \<open>JSON.parse\<close>
  (\<open>None\<close> when it throws a SyntaxError), \<open>JSON.stringify\<close>, number printing, the
  HTML parser of \<open>DOMParser.parseFromString\<close> (returning the children of \<open>body\<close>),
  the fragment parser behind \<open>insertAdjacentHTML\<close>, and the serialiser behind
  \<open>innerHTML\<close>.
\<close>

record env =
  json_parse :: "string \<Rightarrow> json option"
  json_stringify :: "json \<Rightarrow> string"
  number_to_string :: "int \<Rightarrow> string"
  parseFromString :: "string \<Rightarrow> node list"
  parseFragment :: "string \<Rightarrow> node list"
  innerHTML :: "node list \<Rightarrow> string"

text \<open>The element \<open>document.getElementById\<close> returns; \<open>val\<close> is its \<open>value\<close>
  property, absent on an element that is not a form control.\<close>

record input_element =
  val :: "string option"

section \<open>normalizeDOM\<close>

text \<open>Selector \<open>figure[data-trix-attachment]\<close>.\<close>

definition attachment_figure :: "node list \<Rightarrow> path \<Rightarrow> bool" where
  "attachment_figure d p =
     (case node_at d p of
        Some n \<Rightarrow> has_tag ''figure'' n \<and> getAttribute n ''data-trix-attachment'' \<noteq> None
      | None \<Rightarrow> False)"

text \<open>The filter \<open>figure.querySelector("figcaption") == null\<close>.\<close>

definition lacks_figcaption :: "node list \<Rightarrow> path \<Rightarrow> bool" where
  "lacks_figcaption d p =
     (case node_at d p of Some n \<Rightarrow> \<not> has_descendant ''figcaption'' n | None \<Rightarrow> False)"

text \<open>Selector \<open>div > figure:first-child\<close>: a figure whose parent is a div and that has
  no element sibling before it. The parent of a top-level node is \<open>body\<close>.\<close>

definition first_figure_of_div :: "node list \<Rightarrow> path \<Rightarrow> bool" where
  "first_figure_of_div d p =
     (p \<noteq> [] \<and>
      (case node_at d p of Some n \<Rightarrow> has_tag ''figure'' n | None \<Rightarrow> False) \<and>
      (case node_at d (butlast p) of
         Some parent \<Rightarrow>
           has_tag ''div'' parent \<and>
           list_all (\<lambda>s. \<not> is_element s) (take (last p) (child_nodes parent))
       | None \<Rightarrow> False))"

text \<open>Selector \<open>figure .attachment__name\<close>: an element of that class below a figure.\<close>

definition attachment_name :: "node list \<Rightarrow> path \<Rightarrow> bool" where
  "attachment_name d p =
     ((case node_at d p of Some n \<Rightarrow> ''attachment__name'' \<in> set (classList n) | None \<Rightarrow> False) \<and>
      (\<exists>k \<in> set [1..<length p].
         case node_at d (take k p) of Some a \<Rightarrow> has_tag ''figure'' a | None \<Rightarrow> False))"

definition gallery_step :: "path \<Rightarrow> node list \<Rightarrow> node list" where
  "gallery_step p d = update_at (butlast p) (classList_add ''attachment-gallery'') d"

definition caption_html :: "string \<Rightarrow> string" where
  "caption_html c = ''<figcaption class=\"attachment__caption\">'' @ c @ ''</figcaption>''"

definition caption_step :: "env \<Rightarrow> path \<Rightarrow> node list \<Rightarrow> error + node list" where
  "caption_step env p d =
     (case node_at d p of
        None \<Rightarrow> Inr d
      | Some figure \<Rightarrow>
          (case getAttribute figure ''data-trix-attributes'' of
             None \<Rightarrow> Inr d
           | Some attrs \<Rightarrow>
               if attrs = [] then Inr d
               else
                 (case json_parse env attrs of
                    None \<Rightarrow> Inl SyntaxError
                  | Some v \<Rightarrow>
                      (case destructure ''caption'' v of
                         Inl e \<Rightarrow> Inl e
                       | Inr None \<Rightarrow> Inr d
                       | Inr (Some caption) \<Rightarrow>
                           if truthy caption
                           then Inr (update_at p
                                  (append_children
                                     (parseFragment env
                                        (caption_html (to_string (number_to_string env) caption))))
                                  d)
                           else Inr d))))"

text \<open>\<open>forEach\<close> with a callback that may throw: the first exception ends the loop.\<close>

fun forEach :: "('a \<Rightarrow> 's \<Rightarrow> error + 's) \<Rightarrow> 'a list \<Rightarrow> 's \<Rightarrow> error + 's" where
  "forEach f [] s = Inr s"
| "forEach f (x # xs) s = (case f x s of Inl e \<Rightarrow> Inl e | Inr s' \<Rightarrow> forEach f xs s')"

definition name_step :: "path \<Rightarrow> node list \<Rightarrow> node list" where
  "name_step p d =
     (case node_at d p of
        None \<Rightarrow> d
      | Some el \<Rightarrow>
          if str_includes (textContent el) glyph = False then d
          else update_at p (append_children [Text glyph]) d)"

text \<open>The attachment figures without a figcaption below them, as found before any
  change to the document.\<close>

definition filtersWithoutChildren :: "node list \<Rightarrow> path list" where
  "filtersWithoutChildren doc =
     (let figures = querySelectorAll attachment_figure doc
      in filter (lacks_figcaption doc) figures)"

text \<open>The body of \<open>normalizeDOM\<close> between parsing and serialising: the gallery
  class, the captions, the attachment names. Appending after the last child moves no
  other node, so the paths found by a query stay those of the same nodes.\<close>

definition normalize_document :: "env \<Rightarrow> node list \<Rightarrow> error + node list" where
  "normalize_document env doc =
     (let candidates = filtersWithoutChildren doc;
          doc1 = fold gallery_step (querySelectorAll first_figure_of_div doc) doc
      in case forEach (caption_step env) candidates doc1 of
           Inl e \<Rightarrow> Inl e
         | Inr doc2 \<Rightarrow> Inr (fold name_step (querySelectorAll attachment_name doc2) doc2))"


section \<open>The editor host\<close>

subsection \<open>The wrapped engine\<close>

type_synonym starter_kit_options = "(string \<times> json) list"

datatype extension =
    StarterKit starter_kit_options
  | RhinoStarterKit starter_kit_options
  | Custom string

datatype content = HTMLContent string | JSONContent json

text \<open>\<open>element\<close> is the identity of the DOM node the engine is mounted on.\<close>

record editor_options =
  injectCSS :: bool
  opt_extensions :: "extension list"
  autofocus :: bool
  element :: nat
  content :: content
  editable :: bool

text \<open>
  An engine instance as the host sees it: its identity, the options it was built from,
  what \<open>getHTML()\<close> and \<open>getJSON()\<close> return, and the events the host has bound
  with \<open>on\<close>.
\<close>

record editor =
  editor_id :: nat
  options :: editor_options
  getHTML :: string
  getJSON :: json
  bound :: "string list"


subsection \<open>Files, attachments, notifications\<close>

datatype jsfile = File string

text \<open>
  Modelled from the spec: the class \<open>AttachmentManager\<close> is not among the sources.
  An attachment is a value object wrapping a file reference and a generated object URL;
  \<open>src\<close> numbers the object URL that \<open>URL.createObjectURL\<close> handed out.
\<close>

record attachment =
  src :: nat
  att_file :: jsfile

record event =
  defaultPrevented :: bool

text \<open>
  Modelled from the spec: the class \<open>FileAcceptEvent\<close> is not among the sources.
  It is a cancelable notification that carries the file.
\<close>

record file_accept_event = event +
  event_file :: jsfile




datatype command = Focus | SetAttachment "attachment list"

text \<open>What the host does to the outside, in order: a dispatched \<open>FileAcceptEvent\<close>
  (as it is after its listeners ran), a dispatched \<open>AddAttachmentEvent\<close>, a command
  chain run on an editor, and \<open>requestUpdate()\<close>.\<close>

datatype effect =
    FileAccept file_accept_event
  | AddAttachment attachment
  | Chain nat "command list"
  | RequestUpdate

datatype promise = Resolved | Pending

subsection \<open>The light DOM of the host\<close>

text \<open>
  Elements with an identity: \<open>document.createElement\<close> numbers each new node. What
  the engine renders inside its container belongs to the engine and is not part of this
  tree; the host sees of it only the element \<open>engine_view\<close> returns.
\<close>

datatype elem = Elem nat string attrs "elem list"

fun ident :: "elem \<Rightarrow> nat" where
  "ident (Elem i t a cs) = i"

fun is_slot_editor :: "elem \<Rightarrow> bool" where
  "is_slot_editor (Elem i t a cs) = (map_of a ''slot'' = Some ''editor'')"

text \<open>\<open>querySelector("[slot='editor']")\<close>: the first match in document order.\<close>

fun find_slotted :: "elem list \<Rightarrow> elem option" where
  "find_slotted [] = None"
| "find_slotted (Elem i t a cs # es) =
     (if is_slot_editor (Elem i t a cs) then Some (Elem i t a cs)
      else (case find_slotted cs of Some c \<Rightarrow> Some c | None \<Rightarrow> find_slotted es))"


fun ids_of :: "elem \<Rightarrow> nat list"
  and ids :: "elem list \<Rightarrow> nat list" where
  "ids_of (Elem i t a cs) = i # ids cs"
| "ids [] = []"
| "ids (e # es) = ids_of e @ ids es"

subsection \<open>The state of the host and of the page around it\<close>

text \<open>
  The component's fields, followed by what it reaches outside itself: \<open>page\<close> is
  \<open>document.getElementById\<close>, \<open>light_dom\<close> the host's children, \<open>instances\<close>
  every engine instance constructed so far with the element it is mounted on, the three
  counters the identities still unused, and \<open>log\<close> the effects so far.
\<close>

record host =
  readonly :: bool
  input :: "string option"
  editor :: "editor option"
  editorElement :: "node option"
  serializer :: string
  accept :: string
  starterKitOptions :: starter_kit_options
  extensions :: "extension list"
  page :: "string \<Rightarrow> input_element option"
  light_dom :: "elem list"
  instances :: "(nat \<times> nat) list"
  next_node :: nat
  next_editor :: nat
  next_url :: nat
  log :: "effect list"

definition getElementById :: "(string \<Rightarrow> input_element option) \<Rightarrow> string \<Rightarrow> input_element option" where
  "getElementById pg i = (if i = [] then None else pg i)"

definition inputElement :: "host \<Rightarrow> input_element option" where
  "inputElement h =
     (case input h of None \<Rightarrow> None | Some i \<Rightarrow> getElementById (page h) i)"

text \<open>An assignment to a property of the element \<open>inputElement\<close> returned.\<close>

definition store_inputElement :: "input_element \<Rightarrow> host \<Rightarrow> host" where
  "store_inputElement el h =
     (case input h of None \<Rightarrow> h | Some i \<Rightarrow> h\<lparr>page := (page h)(i := Some el)\<rparr>)"

definition slottedEditor :: "host \<Rightarrow> elem option" where
  "slottedEditor h = find_slotted (light_dom h)"

subsection \<open>serialize and updateInputElementValue\<close>

definition serialize :: "env \<Rightarrow> host \<Rightarrow> string" where
  "serialize env h =
     (case editor h of
        None \<Rightarrow> []
      | Some e \<Rightarrow>
          if toLowerCase (serializer h) = ''json'' then json_stringify env (getJSON e)
          else getHTML e)"

definition updateInputElementValue :: "env \<Rightarrow> host \<Rightarrow> host" where
  "updateInputElementValue env h =
     (case inputElement h of
        None \<Rightarrow> h
      | Some el \<Rightarrow>
          if editor h \<noteq> None \<and> \<not> readonly h
          then store_inputElement (el\<lparr>val := Some (serialize env h)\<rparr>) h
          else h)"

subsection \<open>Building the editor\<close>












subsection \<open>Attachment intake\<close>

text \<open>The loop of \<open>transformFilesToAttachments\<close>; an absent entry ends the whole
  call without a result.\<close>

fun attach_loop ::
  "jsfile option list \<Rightarrow> attachment list \<Rightarrow> host \<Rightarrow> attachment list option \<times> host" where
  "attach_loop [] attachments h = (Some attachments, h)"
| "attach_loop (None # fs) attachments h = (None, h)"
| "attach_loop (Some f # fs) attachments h =
     attach_loop fs (attachments @ [\<lparr>src = next_url h, att_file = f\<rparr>])
       (h\<lparr>next_url := Suc (next_url h)\<rparr>)"

definition transformFilesToAttachments ::
  "jsfile option list option \<Rightarrow> host \<Rightarrow> attachment list option \<times> host" where
  "transformFilesToAttachments fs h =
     (if editor h = None then (None, h)
      else (case fs of
              None \<Rightarrow> (None, h)
            | Some l \<Rightarrow> if length l = 0 then (None, h) else attach_loop l [] h))"

text \<open>
  \<open>listener i f\<close> tells whether some listener called \<open>preventDefault\<close> on the
  \<open>i\<close>-th \<open>FileAcceptEvent\<close> of the call, dispatched for file \<open>f\<close>. Listeners
  are taken not to touch the host otherwise.
\<close>

definition dispatch_file_accept :: "(nat \<Rightarrow> jsfile \<Rightarrow> bool) \<Rightarrow> nat \<times> jsfile \<Rightarrow> file_accept_event" where
  "dispatch_file_accept listener x =
     (case x of (i, f) \<Rightarrow> \<lparr>defaultPrevented = listener i f, event_file = f\<rparr>)"

text \<open>The promise \<open>handleFiles\<close> returns is resolved only where the source returns
  from the \<open>async\<close> function itself or calls \<open>resolve()\<close>.\<close>

definition fileAcceptEvents :: "(nat \<Rightarrow> jsfile \<Rightarrow> bool) \<Rightarrow> jsfile list \<Rightarrow> file_accept_event list" where
  "fileAcceptEvents listener l = map (dispatch_file_accept listener) (enumerate 0 l)"

definition allowedFiles :: "file_accept_event list \<Rightarrow> jsfile list" where
  "allowedFiles events = map event_file (filter (\<lambda>e. \<not> defaultPrevented e) events)"

definition handleFiles ::
  "(nat \<Rightarrow> jsfile \<Rightarrow> bool) \<Rightarrow> jsfile list option \<Rightarrow> host \<Rightarrow> promise \<times> host" where
  "handleFiles listener fs h =
     (if editor h = None then (Resolved, h)
      else
        (case fs of
           None \<Rightarrow> (Pending, h)
         | Some l \<Rightarrow>
             (let events = fileAcceptEvents listener l;
                  h1 = h\<lparr>log := log h @ map FileAccept events\<rparr>;
                  (attachments, h2) =
                    transformFilesToAttachments (Some (map Some (allowedFiles events))) h1
              in case attachments of
                   None \<Rightarrow> (Pending, h2)
                 | Some atts \<Rightarrow>
                     if length atts \<le> 0 then (Pending, h2)
                     else
                       (let h3 = (case editor h2 of
                                    None \<Rightarrow> h2
                                  | Some e \<Rightarrow>
                                      h2\<lparr>log := log h2 @
                                            [Chain (editor_id e) [Focus, SetAttachment atts]]\<rparr>);
                            h4 = h3\<lparr>log := log h3 @ map AddAttachment atts\<rparr>
                        in (Resolved, h4)))))"


section \<open>Vocabulary of the statements\<close>






text \<open>The element a browser builds from the caption markup of a plain text \<open>x\<close>.\<close>

definition caption_element :: "string \<Rightarrow> node" where
  "caption_element x = Element ''figcaption'' [(''class'', ''attachment__caption'')] [Text x]"


text \<open>The engine instances whose mount element is in the host's light DOM.\<close>

definition mounted :: "host \<Rightarrow> (nat \<times> nat) list" where
  "mounted h = filter (\<lambda>(e, c). c \<in> set (ids (light_dom h))) (instances h)"

text \<open>
  What every state of the host satisfies: the nodes of the light DOM have distinct
  identities, all handed out already; so have the instances and their mount elements; an
  instance mounted in the light DOM is mounted on the slotted editor element; and the
  editor the host holds is a constructed instance.
\<close>

definition wf_host :: "host \<Rightarrow> bool" where
  "wf_host h =
     (distinct (ids (light_dom h)) \<and>
      (\<forall>i \<in> set (ids (light_dom h)). i < next_node h) \<and>
      (\<forall>(e, c) \<in> set (instances h). e < next_editor h \<and> c < next_node h) \<and>
      (\<forall>(e, c) \<in> set (mounted h). map_option ident (slottedEditor h) = Some c) \<and>
      (case editor h of
         None \<Rightarrow> True
       | Some ed \<Rightarrow> (editor_id ed, element (options ed)) \<in> set (instances h)))"

text \<open>
  The host \<open>h'\<close> holds an editor built after \<open>h\<close>: a new instance, mounted on a
  node that was neither in the light DOM of \<open>h\<close> nor the mount element of an
  instance of \<open>h\<close>; that node is the slotted editor element of \<open>h'\<close>; the new
  instance is the only one mounted in the light DOM of \<open>h'\<close>; and the editor
  \<open>h\<close> held, like every instance of \<open>h\<close>, is a different instance whose mount
  element is no longer in the light DOM.
\<close>

definition rebuilt :: "host \<Rightarrow> host \<Rightarrow> bool" where
  "rebuilt h h' =
     (case editor h' of
        None \<Rightarrow> False
      | Some ed \<Rightarrow>
          editor_id ed = next_editor h \<and>
          element (options ed) = next_node h \<and>
          next_editor h \<notin> fst ` set (instances h) \<and>
          next_node h \<notin> set (ids (light_dom h)) \<and>
          next_node h \<notin> snd ` set (instances h) \<and>
          map_option ident (slottedEditor h') = Some (next_node h) \<and>
          mounted h' = [(next_editor h, next_node h)] \<and>
          (\<forall>(e, c) \<in> set (instances h). c \<notin> set (ids (light_dom h'))) \<and>
          (case editor h of
             None \<Rightarrow> True
           | Some old \<Rightarrow>
               editor_id old \<noteq> editor_id ed \<and>
               element (options old) \<notin> set (ids (light_dom h'))))"


section \<open>Sample inputs\<close>

definition figure_markup :: "string \<Rightarrow> string \<Rightarrow> string" where
  "figure_markup payload inner =
     ''<figure data-trix-attachment=\"{}\" data-trix-attributes=\"'' @ payload @ ''\">'' @ inner
       @ ''</figure>''"

definition sample_figure :: "string \<Rightarrow> node list \<Rightarrow> node" where
  "sample_figure payload cs =
     Element ''figure'' [(''data-trix-attachment'', ''{}''), (''data-trix-attributes'', payload)] cs"

definition sample_name :: "node list \<Rightarrow> node" where
  "sample_name cs = Element ''figure'' [] [Element ''span'' [(''class'', ''attachment__name'')] cs]"

text \<open>Stored values and the documents a browser parses them to (and serialises
  them from).\<close>

definition sample_documents :: "(string \<times> node list) list" where
  "sample_documents =
     [(figure_markup ''{&quot;caption&quot;:&quot;x&quot;}'' [],
         [sample_figure ''{\"caption\":\"x\"}'' []]),
      (figure_markup ''{&quot;caption&quot;:&quot;x&quot;}''
           ''<figcaption class=\"attachment__caption\">x</figcaption>'',
         [sample_figure ''{\"caption\":\"x\"}'' [caption_element ''x'']]),
      (figure_markup ''{&quot;caption&quot;:&quot;&quot;}'' [],
         [sample_figure ''{\"caption\":\"\"}'' []]),
      (figure_markup ''{}'' [], [sample_figure ''{}'' []]),
      (figure_markup ''{'' [], [sample_figure ''{'' []]),
      (''<figure><span class=\"attachment__name\">a.png</span></figure>'',
         [sample_name [Text ''a.png'']])]"

definition sample_env :: env where
  "sample_env =
     \<lparr>json_parse =
        map_of [(''{\"caption\":\"x\"}'', JObj [(''caption'', JStr ''x'')]),
                (''{\"caption\":\"\"}'', JObj [(''caption'', JStr [])]),
                (''{}'', JObj []),
                (''null'', JNull)],
      json_stringify = (\<lambda>j. if j = JObj [(''type'', JStr ''doc'')] then ''{\"type\":\"doc\"}'' else []),
      number_to_string = (\<lambda>n. if n = 0 then ''0'' else []),
      parseFromString = (\<lambda>s. case map_of sample_documents s of Some d \<Rightarrow> d | None \<Rightarrow> []),
      parseFragment =
        (\<lambda>s. if s = caption_html ''x'' then [caption_element ''x''] else []),
      innerHTML =
        (\<lambda>d. case map_of (map (\<lambda>(s, d). (d, s)) sample_documents) d of
               Some s \<Rightarrow> s
             | None \<Rightarrow> [])\<rparr>"


text \<open>The host as its field initialisers leave it, on a page without its input.\<close>

definition new_host :: host where
  "new_host =
     \<lparr>readonly = False, input = None, editor = None, editorElement = None,
      serializer = ''html'', accept = ''*'',
      starterKitOptions = [(''strike'', JBool False)], extensions = [],
      page = (\<lambda>i. None), light_dom = [], instances = [],
      next_node = 0, next_editor = 0, next_url = 0, log = []\<rparr>"

definition sample_editor :: editor where
  "sample_editor =
     \<lparr>editor_id = 0,
      options = \<lparr>injectCSS = False, opt_extensions = [], autofocus = False, element = 0,
                 content = HTMLContent ''<p>Hi</p>'', editable = True\<rparr>,
      getHTML = ''<p>Hi</p>'',
      getJSON = JObj [(''type'', JStr ''doc'')],
      bound = []\<rparr>"

text \<open>A host with a live editor, bound to the input \<open>note\<close>.\<close>

definition live_host :: host where
  "live_host =
     new_host\<lparr>input := Some ''note'',
               editor := Some sample_editor,
               page := (\<lambda>i. if i = ''note'' then Some \<lparr>val = Some ''<p>Old</p>''\<rparr> else None),
               light_dom := [Elem 0 ''div'' [(''slot'', ''editor'')] []],
               instances := [(0, 0)],
               next_node := 1, next_editor := 1\<rparr>"

text \<open>The attachments built for the files \<open>fs\<close> when \<open>u\<close> object URLs were
  handed out before.\<close>

definition new_attachments :: "nat \<Rightarrow> jsfile list \<Rightarrow> attachment list" where
  "new_attachments u fs = map (\<lambda>(i, f). \<lparr>src = u + i, att_file = f\<rparr>) (enumerate 0 fs)"







section \<open>Updates along paths\<close>



lemma update_at_Cons:
  "update_at (i # p) f ns =
     (if i < length ns
      then (if p = [] then ns[i := f (ns ! i)]
            else (case ns ! i of
                    Element t a cs \<Rightarrow> ns[i := Element t a (update_at p f cs)]
                  | Text s \<Rightarrow> ns))
      else ns)"
  by (cases p) (auto split: node.splits)

lemma length_update_at [simp]: "length (update_at p f ns) = length ns"
  by (cases p) (auto simp: update_at_Cons split: node.splits)










section \<open>Serialising into the bound input\<close>

lemma lower_JSON: "toLowerCase ''JSON'' = ''json''"
  by code_simp


lemma lower_html: "toLowerCase ''html'' = ''html''"
  by code_simp

text \<open>
  Claim C2. \<open>serialize()\<close> returns the empty string when no editor is live; with a
  live editor it returns the JSON-stringified document when the serializer lower-cases
  to \<open>json\<close>, and the editor's HTML otherwise. It is a function of the host into
  strings: it returns no host, so nothing of the host or the editor changes.
\<close>

theorem serialize_correct:
  "(editor h = None \<longrightarrow> serialize env h = []) \<and>
   (\<forall>e. editor h = Some e \<and> toLowerCase (serializer h) = ''json'' \<longrightarrow>
        serialize env h = json_stringify env (getJSON e)) \<and>
   (\<forall>e. editor h = Some e \<and> toLowerCase (serializer h) \<noteq> ''json'' \<longrightarrow>
        serialize env h = getHTML e)"
  by (simp add: serialize_def)

theorem serialize_correct_witness:
  "serialize sample_env new_host = [] \<and>
   serialize sample_env (live_host\<lparr>serializer := ''JSON''\<rparr>) = ''{\"type\":\"doc\"}'' \<and>
   serialize sample_env live_host = ''<p>Hi</p>''"
  using serialize_correct [of new_host sample_env]
    serialize_correct [of "live_host\<lparr>serializer := ''JSON''\<rparr>" sample_env]
    serialize_correct [of live_host sample_env]
  by (simp add: new_host_def live_host_def sample_editor_def sample_env_def lower_JSON lower_html)

lemma inputElement_store:
  "inputElement h = Some el \<Longrightarrow> inputElement (store_inputElement el' h) = Some el'"
  by (auto simp: inputElement_def store_inputElement_def getElementById_def
      split: option.splits if_splits)

text \<open>
  Claim C6. \<open>updateInputElementValue()\<close> writes \<open>serialize()\<close> into the value of
  the bound input when that input resolves, an editor is live and the host is not
  readonly; when the host is readonly, or no editor is live, or the bound input does not
  resolve, the host and the page are left exactly as they were.
\<close>

theorem updateInputElementValue_frame:
  "(\<forall>el. inputElement h = Some el \<and> editor h \<noteq> None \<and> \<not> readonly h \<longrightarrow>
         inputElement (updateInputElementValue env h) = Some (el\<lparr>val := Some (serialize env h)\<rparr>)) \<and>
   (readonly h \<or> editor h = None \<or> inputElement h = None \<longrightarrow>
         updateInputElementValue env h = h)"
  by (auto simp: updateInputElementValue_def inputElement_store split: option.splits)

theorem updateInputElementValue_frame_witness:
  "inputElement (updateInputElementValue sample_env live_host) = Some \<lparr>val = Some ''<p>Hi</p>''\<rparr> \<and>
   updateInputElementValue sample_env (live_host\<lparr>readonly := True\<rparr>) = live_host\<lparr>readonly := True\<rparr> \<and>
   updateInputElementValue sample_env (live_host\<lparr>editor := None\<rparr>) = live_host\<lparr>editor := None\<rparr> \<and>
   updateInputElementValue sample_env (live_host\<lparr>input := Some ''gone''\<rparr>) =
     live_host\<lparr>input := Some ''gone''\<rparr>"
  using updateInputElementValue_frame [of live_host sample_env]
    updateInputElementValue_frame [of "live_host\<lparr>readonly := True\<rparr>" sample_env]
    updateInputElementValue_frame [of "live_host\<lparr>editor := None\<rparr>" sample_env]
    updateInputElementValue_frame [of "live_host\<lparr>input := Some ''gone''\<rparr>" sample_env]
  by (simp add: live_host_def new_host_def sample_editor_def inputElement_def getElementById_def
      serialize_def lower_html)


section \<open>Attachment intake\<close>

lemma attach_loop_Some:
  "attach_loop (map Some fs) acc h =
     (Some (acc @ new_attachments (next_url h) fs), h\<lparr>next_url := next_url h + length fs\<rparr>)"
proof (induction fs arbitrary: acc h)
  case Nil
  then show ?case by (simp add: new_attachments_def)
next
  case (Cons f fs)
  have "map (\<lambda>(i, f). \<lparr>src = next_url h + i, att_file = f\<rparr>) (enumerate (Suc 0) fs) =
        map (\<lambda>(i, f). \<lparr>src = Suc (next_url h + i), att_file = f\<rparr>) (enumerate 0 fs)"
    by (simp add: enumerate_Suc_eq map_prod_def split_def o_def)
  with Cons show ?case by (simp add: new_attachments_def)
qed

lemma handleFiles_live:
  assumes "editor h = Some e"
  shows "handleFiles listener (Some fs) h =
     (let events = fileAcceptEvents listener fs;
          allowed = allowedFiles events;
          atts = new_attachments (next_url h) allowed
      in if allowed = [] then (Pending, h\<lparr>log := log h @ map FileAccept events\<rparr>)
         else (Resolved,
               h\<lparr>next_url := next_url h + length allowed,
                 log := log h @ map FileAccept events @
                        [Chain (editor_id e) [Focus, SetAttachment atts]] @
                        map AddAttachment atts\<rparr>))"
  using assms
  by (simp add: handleFiles_def transformFilesToAttachments_def attach_loop_Some Let_def
      new_attachments_def)




text \<open>
  Claim C3, the code as it is. Without a live editor \<open>handleFiles\<close> resolves at
  once and does nothing. With a live editor and an empty file collection it does
  nothing either, but the promise it returns stays pending: the executor returns before
  \<open>resolve()\<close>. The same happens whenever no file is left after the file-accept
  notifications; the promise resolves only when at least one file was accepted.
\<close>

theorem handleFiles_resolution:
  "(editor h = None \<longrightarrow> handleFiles listener fs h = (Resolved, h)) \<and>
   (editor h \<noteq> None \<longrightarrow> handleFiles listener (Some []) h = (Pending, h)) \<and>
   (editor h \<noteq> None \<longrightarrow>
      fst (handleFiles listener (Some l) h) =
        (if allowedFiles (fileAcceptEvents listener l) = [] then Pending else Resolved))"
proof (intro conjI impI)
  assume "editor h = None"
  then show "handleFiles listener fs h = (Resolved, h)"
    by (simp add: handleFiles_def)
next
  assume "editor h \<noteq> None"
  then obtain e where e: "editor h = Some e" by auto
  show "handleFiles listener (Some []) h = (Pending, h)"
    by (simp add: handleFiles_live [OF e] fileAcceptEvents_def allowedFiles_def)
  show "fst (handleFiles listener (Some l) h) =
        (if allowedFiles (fileAcceptEvents listener l) = [] then Pending else Resolved)"
    by (simp add: handleFiles_live [OF e] Let_def)
qed

theorem handleFiles_resolution_witness:
  "handleFiles (\<lambda>i f. False) (Some [File ''a.png'']) new_host = (Resolved, new_host) \<and>
   handleFiles (\<lambda>i f. False) (Some []) live_host = (Pending, live_host) \<and>
   fst (handleFiles (\<lambda>i f. True) (Some [File ''a.png'']) live_host) = Pending \<and>
   fst (handleFiles (\<lambda>i f. False) (Some [File ''a.png'']) live_host) = Resolved"
  using handleFiles_resolution [of new_host "\<lambda>i f. False" "Some [File ''a.png'']" "[]"]
    handleFiles_resolution [of live_host "\<lambda>i f. False" "None" "[File ''a.png'']"]
    handleFiles_resolution [of live_host "\<lambda>i f. True" "None" "[File ''a.png'']"]
  by (simp add: new_host_def live_host_def fileAcceptEvents_def allowedFiles_def
      dispatch_file_accept_def)








section \<open>Attachment names\<close>

lemma name_paths:
  "querySelectorAll attachment_name [sample_name [Text t]] = [[0, 0]]"
  by (simp add: querySelectorAll_def element_paths_def sample_name_def attachment_name_def
        classList_def is_space_def)

lemma name_doc_no_figures:
  "querySelectorAll attachment_figure [sample_name [Text t]] = []"
  "querySelectorAll first_figure_of_div [sample_name [Text t]] = []"
  by (simp_all add: querySelectorAll_def element_paths_def sample_name_def attachment_figure_def
        first_figure_of_div_def)

text \<open>
  Claim C9, the code as it is. The test before the insertion is inverted: for a name
  element whose text is \<open>t\<close>, the separator is appended exactly when \<open>t\<close> already
  contains it, and a name that does not contain it is left without one.
\<close>

theorem name_glyph_inverted:
  "normalize_document env [sample_name [Text t]] =
     Inr [if str_includes t glyph then sample_name [Text t, Text glyph]
          else sample_name [Text t]]"
  by (simp add: normalize_document_def filtersWithoutChildren_def name_doc_no_figures
        name_paths name_step_def)
     (simp add: sample_name_def)

theorem name_glyph_inverted_witness:
  "normalize_document sample_env [sample_name [Text ''a.png'']] =
     Inr [sample_name [Text ''a.png'']] \<and>
   normalize_document sample_env [sample_name [Text (''a.png'' @ glyph)]] =
     Inr [sample_name [Text (''a.png'' @ glyph), Text glyph]]"
  using name_glyph_inverted [of sample_env "''a.png''"]
    name_glyph_inverted [of sample_env "''a.png'' @ glyph"]
  by (simp add: glyph_def)

section \<open>The serializer mode\<close>











section \<open>When normalisation throws\<close>

















section \<open>Synthesised captions\<close>


































section \<open>Rebuilding the editor\<close>


lemma ids_append [simp]: "ids (f @ g) = ids f @ ids g"
  by (induction f) auto


lemma find_slotted_is_slot:
  "find_slotted f = Some c \<Longrightarrow> is_slot_editor c"
  by (induction f rule: find_slotted.induct) (auto split: if_splits option.splits)





lemma ident_in_ids_of [simp]: "ident e \<in> set (ids_of e)"
  by (cases e) simp


lemma find_slotted_slot [simp]:
  "is_slot_editor new \<Longrightarrow> find_slotted (new # es) = Some new"
  by (cases new) simp













lemma wf_host_update [simp]:
  "wf_host (h\<lparr>extensions := x\<rparr>) = wf_host h"
  "wf_host (h\<lparr>starterKitOptions := y\<rparr>) = wf_host h"
  by (simp_all add: wf_host_def mounted_def slottedEditor_def split: option.splits)

lemma rebuilt_update [simp]:
  "rebuilt (h\<lparr>extensions := x\<rparr>) h' = rebuilt h h'"
  "rebuilt (h\<lparr>starterKitOptions := y\<rparr>) h' = rebuilt h h'"
  by (simp_all add: rebuilt_def split: option.splits)









end
